theory Spec2Isabelle
  imports Complex_Main
begin

section \<open>Data model\<close>

text \<open>
  The designer keeps one shared object \<^verbatim>\<open>state\<close> (app.js, line 431) that the input
  handlers of \<^verbatim>\<open>bind\<close> overwrite and that \<^verbatim>\<open>computeStage\<close> and \<^verbatim>\<open>computeAll\<close> read.
  It is passed explicitly here. JavaScript numbers are idealised as real numbers:
  rounding, NaN and the infinities of IEEE doubles are outside this embedding.
\<close>

record app_state =
  units :: string
  N :: real
  arm_mm :: real
  base_mm :: real
  top_mm :: real
  alphaDeg :: real
  preset :: string
  lockX :: bool

text \<open>A pin \<^verbatim>\<open>{x, y}\<close>.\<close>

record pin =
  px :: real
  py :: real

text \<open>The per-end labels \<^verbatim>\<open>"fixed"\<close> and \<^verbatim>\<open>"slide"\<close> of \<^verbatim>\<open>constraintsFromPreset\<close>.\<close>

datatype endMode = Fixed | Slide

record constraints =
  baseL :: endMode
  baseR :: endMode
  topL :: endMode
  topR :: endMode

text \<open>
  The warning messages, by their template. Of \<^verbatim>\<open>stageWarnings\<close> (app.js, line 468):
  \<^item> \<open>BothBaseFixed\<close>: "Both base ends fixed: can bind unless the top has sufficient sliding freedom."
  \<^item> \<open>BothTopFixed\<close>: "Both top ends fixed: can bind unless the base has sufficient sliding freedom."
  \<^item> \<open>Overconstrained\<close>: "Overconstrained: likely impossible without flex/compliance."

  Of \<^verbatim>\<open>outOfRange\<close> (app.js, line 507):
  \<^item> \<open>OutOfRange name x lo hi\<close>: "name is outside its rail/slot range (x mm not in [lo, hi])."
    where the three numbers are the values \<^verbatim>\<open>fmt\<close> rounds to; their decimal rendering by
    \<^verbatim>\<open>toString\<close> is not modelled.

  Of the revision of \<^verbatim>\<open>computeStage\<close> at app.js, line 66:
  \<^item> \<open>BaseLeftOut\<close>: "Base-left pin out of rail range; increase base length or reduce angle."
  \<^item> \<open>BaseRightOut\<close>: "Base-right pin out of rail range; increase base length or reduce angle."
  \<^item> \<open>TopLeftOut\<close>: "Top-left pin out of rail range; increase top length or reduce angle."
  \<^item> \<open>TopRightOut\<close>: "Top-right pin out of rail range; increase top length or reduce angle."

  Of \<^verbatim>\<open>computeStageLockX\<close> (part_000, line 62):
  \<^item> \<open>SpanExceedsBase\<close>: "Stage span s is larger than BASE rail length. Increase base rail
    length or increase \<alpha>."
  \<^item> \<open>SpanExceedsTop\<close>: "Stage span s is larger than TOP rail length. Increase top rail
    length or increase \<alpha>."
\<close>

datatype warning =
    BothBaseFixed
  | BothTopFixed
  | Overconstrained
  | OutOfRange string real real real
  | BaseLeftOut
  | BaseRightOut
  | TopLeftOut
  | TopRightOut
  | SpanExceedsBase
  | SpanExceedsTop

text \<open>The object \<^verbatim>\<open>platform\<close> of the result: the rigid rail endpoints.\<close>

record platform =
  xPlat :: real
  plat_baseLeft :: pin
  plat_baseRight :: pin
  plat_topLeft :: pin
  plat_topRight :: pin

text \<open>
  The result of \<^verbatim>\<open>computeStage\<close>: \<^verbatim>\<open>{h, s, A, B, C, D, baseSpan, topSpan, platform, warnings}\<close>.
\<close>

record stage =
  stage_h :: real
  stage_s :: real
  pinA :: pin
  pinB :: pin
  pinC :: pin
  pinD :: pin
  baseSpan :: real
  topSpan :: real
  platform :: platform
  warnings :: "warning list"

text \<open>
  One entry of \<^verbatim>\<open>stages\<close> in \<^verbatim>\<open>computeAll\<close>: \<^verbatim>\<open>{idx, A, B, C, D, h, s}\<close>, and the
  result \<^verbatim>\<open>{stage0, stages, totalH}\<close>.
\<close>

record stageCopy =
  idx :: nat
  copyA :: pin
  copyB :: pin
  copyC :: pin
  copyD :: pin
  copy_h :: real
  copy_s :: real

record assembly =
  stage0 :: stage
  stages :: "stageCopy list"
  totalH :: real

section \<open>Helpers\<close>

text \<open>\<^verbatim>\<open>function rad(deg){ return (deg * Math.PI) / 180; }\<close>\<close>

definition rad :: "real \<Rightarrow> real" where
  "rad deg = (deg * pi) / 180"

text \<open>
  \<^verbatim>\<open>fmt(val)\<close> is \<^verbatim>\<open>(Math.round(val * 1000) / 1000).toString()\<close>; \<^verbatim>\<open>Math.round\<close> rounds
  half up. The number before \<^verbatim>\<open>toString\<close> is kept.
\<close>

definition fmt :: "real \<Rightarrow> real" where
  "fmt val = of_int \<lfloor>val * 1000 + 1 / 2\<rfloor> / 1000"

definition constraintsFromPreset :: "string \<Rightarrow> constraints" where
  "constraintsFromPreset p =
     (if p = ''classic'' then
        \<lparr>baseL = Fixed, baseR = Slide, topL = Slide, topR = Fixed\<rparr>
      else if p = ''mirrored'' then
        \<lparr>baseL = Slide, baseR = Fixed, topL = Fixed, topR = Slide\<rparr>
      else if p = ''bothBaseFixed'' then
        \<lparr>baseL = Fixed, baseR = Fixed, topL = Slide, topR = Fixed\<rparr>
      else if p = ''bothTopFixed'' then
        \<lparr>baseL = Fixed, baseR = Slide, topL = Fixed, topR = Fixed\<rparr>
      else
        \<lparr>baseL = Fixed, baseR = Slide, topL = Slide, topR = Fixed\<rparr>)"

text \<open>
  \<^verbatim>\<open>stageWarnings(cons)\<close>: the two counters add booleans, so each is 0, 1 or 2.
\<close>

definition stageWarnings :: "constraints \<Rightarrow> warning list" where
  "stageWarnings cons =
     (let warns = [];
          baseFixed = (of_bool (baseL cons = Fixed) + of_bool (baseR cons = Fixed) :: nat);
          topFixed = (of_bool (topL cons = Fixed) + of_bool (topR cons = Fixed) :: nat);
          warns = (if baseFixed = 2 then warns @ [BothBaseFixed] else warns);
          warns = (if topFixed = 2 then warns @ [BothTopFixed] else warns);
          warns = (if baseFixed = 2 \<and> topFixed = 2 then warns @ [Overconstrained] else warns)
      in warns)"

text \<open>\<^verbatim>\<open>function clamp(val, min, max){ return Math.max(min, Math.min(max, val)); }\<close>\<close>

definition clamp :: "real \<Rightarrow> real \<Rightarrow> real \<Rightarrow> real" where
  "clamp val lo hi = max lo (min hi val)"

text \<open>
  The local helper \<^verbatim>\<open>outOfRange(name, x, lo, hi)\<close> of \<^verbatim>\<open>computeStage\<close> pushes onto the
  enclosing \<^verbatim>\<open>warnings\<close> array; the array is passed in and returned with the flag.
\<close>

definition outOfRange :: "string \<Rightarrow> real \<Rightarrow> real \<Rightarrow> real \<Rightarrow> warning list \<Rightarrow> bool \<times> warning list" where
  "outOfRange name x lo hi ws =
     (if x < lo \<or> x > hi then (True, ws @ [OutOfRange name (fmt x) (fmt lo) (fmt hi)])
      else (False, ws))"

section \<open>The stage solver\<close>

text \<open>
  \<^verbatim>\<open>computeStage(Larm, baseLen, topLen, alphaDeg, preset)\<close>, app.js line 492. The function
  reads \<^verbatim>\<open>state.lockX\<close>: when it is on, the rails stay centred and one of two layouts is
  solved, selected by \<^verbatim>\<open>preset === "mirrored"\<close>; when it is off, the older solver that
  recentres the four pins runs.
\<close>

definition computeStage :: "app_state \<Rightarrow> real \<Rightarrow> real \<Rightarrow> real \<Rightarrow> real \<Rightarrow> string \<Rightarrow> stage" where
  "computeStage st Larm baseLen topLen aDeg p =
     (let a = rad aDeg;
          h = Larm * sin a;
          s = Larm * cos a;
          cons = constraintsFromPreset p;
          ws = stageWarnings cons;
          baseLeft = - baseLen / 2;
          baseRight = baseLen / 2;
          topLeft = - topLen / 2;
          topRight = topLen / 2
      in
        if lockX st then
          (let (xA, xB, xC, xD, ws) =
             (if p = ''mirrored'' then
                (let xB = baseRight;
                     xD = topRight;
                     xA = xD - s;
                     xC = xB - s;
                     ws = snd (outOfRange ''Base-left slider (A)'' xA baseLeft baseRight ws);
                     ws = snd (outOfRange ''Top-left slider (C)'' xC topLeft topRight ws)
                 in (xA, xB, xC, xD, ws))
              else
                (let xA = baseLeft;
                     xC = topLeft;
                     xD = xA + s;
                     xB = xC + s;
                     ws = snd (outOfRange ''Base-right slider (B)'' xB baseLeft baseRight ws);
                     ws = snd (outOfRange ''Top-right slider (D)'' xD topLeft topRight ws)
                 in (xA, xB, xC, xD, ws)))
           in
             \<lparr>stage_h = h, stage_s = s,
              pinA = \<lparr>px = xA, py = 0\<rparr>,
              pinB = \<lparr>px = xB, py = 0\<rparr>,
              pinC = \<lparr>px = xC, py = h\<rparr>,
              pinD = \<lparr>px = xD, py = h\<rparr>,
              baseSpan = baseLen,
              topSpan = topLen,
              platform =
                \<lparr>xPlat = 0,
                 plat_baseLeft = \<lparr>px = baseLeft, py = 0\<rparr>,
                 plat_baseRight = \<lparr>px = baseRight, py = 0\<rparr>,
                 plat_topLeft = \<lparr>px = topLeft, py = h\<rparr>,
                 plat_topRight = \<lparr>px = topRight, py = h\<rparr>\<rparr>,
              warnings = ws\<rparr>)
        else
          (let baseLeftNom = - baseLen / 2;
               baseRightNom = baseLen / 2;
               topLeftNom = - topLen / 2;
               topRightNom = topLen / 2;
               xA = baseLeftNom; xB = baseRightNom; xC = topLeftNom; xD = topRightNom;
               xA = (if baseL cons = Fixed then baseLeftNom else xA);
               xB = (if baseR cons = Fixed then baseRightNom else xB);
               xC = (if topL cons = Fixed then topLeftNom else xC);
               xD = (if topR cons = Fixed then topRightNom else xD);
               (xA, xD) =
                 (if topR cons = Slide then (xA, xA + s)
                  else if baseL cons = Slide then (xD - s, xD)
                  else (xA, xD));
               (xB, xC) =
                 (if topL cons = Slide then (xB, xB + s)
                  else if baseR cons = Slide then (xC - s, xC)
                  else (xB, xC));
               center = (xA + xB + xC + xD) / 4;
               xA = xA - center; xB = xB - center; xC = xC - center; xD = xD - center
           in
             \<lparr>stage_h = h, stage_s = s,
              pinA = \<lparr>px = xA, py = 0\<rparr>,
              pinB = \<lparr>px = xB, py = 0\<rparr>,
              pinC = \<lparr>px = xC, py = h\<rparr>,
              pinD = \<lparr>px = xD, py = h\<rparr>,
              baseSpan = xB - xA,
              topSpan = xD - xC,
              platform =
                \<lparr>xPlat = 0,
                 plat_baseLeft = \<lparr>px = baseLeftNom, py = 0\<rparr>,
                 plat_baseRight = \<lparr>px = baseRightNom, py = 0\<rparr>,
                 plat_topLeft = \<lparr>px = topLeftNom, py = h\<rparr>,
                 plat_topRight = \<lparr>px = topRightNom, py = h\<rparr>\<rparr>,
              warnings = ws\<rparr>))"

section \<open>The stack builder\<close>

text \<open>
  The object pushed by the loop body of \<^verbatim>\<open>computeAll\<close> (app.js, line 637) for index \<open>i\<close>:
  the pins of the solved stage moved up by \<^verbatim>\<open>yOffset = i * stage.h\<close>.
\<close>

definition stageCopyAt :: "stage \<Rightarrow> nat \<Rightarrow> stageCopy" where
  "stageCopyAt stg i =
     (let yOffset = real i * stage_h stg
      in \<lparr>idx = i + 1,
          copyA = \<lparr>px = px (pinA stg), py = py (pinA stg) + yOffset\<rparr>,
          copyB = \<lparr>px = px (pinB stg), py = py (pinB stg) + yOffset\<rparr>,
          copyC = \<lparr>px = px (pinC stg), py = py (pinC stg) + yOffset\<rparr>,
          copyD = \<lparr>px = px (pinD stg), py = py (pinD stg) + yOffset\<rparr>,
          copy_h = stage_h stg,
          copy_s = stage_s stg\<rparr>)"

text \<open>
  The loop \<^verbatim>\<open>for(let i=0;i<state.N;i++){ stages.push(...) }\<close>, with the counter and the array
  built so far as arguments. \<^verbatim>\<open>state.N\<close> is a number, not necessarily whole; the loop
  stops as soon as \<open>i < n\<close> fails.
\<close>

function stackLoop :: "real \<Rightarrow> stage \<Rightarrow> nat \<Rightarrow> stageCopy list \<Rightarrow> stageCopy list" where
  "stackLoop n stg i acc =
     (if real i < n then stackLoop n stg (Suc i) (acc @ [stageCopyAt stg i]) else acc)"
  by pat_completeness auto
termination
proof (relation "measure (\<lambda>(n, stg, i, acc). nat \<lceil>n\<rceil> - i)")
  show "wf (measure (\<lambda>(n, stg, i, acc). nat \<lceil>n\<rceil> - i))"
    by simp
next
  fix n :: real and stg :: stage and i :: nat and acc :: "stageCopy list"
  assume "real i < n"
  then have "int i < \<lceil>n\<rceil>"
    by linarith
  then show "((n, stg, Suc i, acc @ [stageCopyAt stg i]), (n, stg, i, acc))
             \<in> measure (\<lambda>(n, stg, i, acc). nat \<lceil>n\<rceil> - i)"
    by simp
qed

declare stackLoop.simps [simp del]

text \<open>\<^verbatim>\<open>computeAll()\<close>, app.js line 633: it reads every field of \<^verbatim>\<open>state\<close> but \<^verbatim>\<open>units\<close>.\<close>

definition computeAll :: "app_state \<Rightarrow> assembly" where
  "computeAll st =
     (let stage = computeStage st (arm_mm st) (base_mm st) (top_mm st) (alphaDeg st) (preset st);
          stages = stackLoop (N st) stage 0 [];
          totalH = N st * stage_h stage
      in \<lparr>stage0 = stage, stages = stages, totalH = totalH\<rparr>)"

section \<open>Other revisions of the solver in the sources\<close>

text \<open>
  The sources hold three more revisions of the stage solver. None of them is the solver
  of app.js line 492, which the theorems below are about; they are embedded to record
  where they differ from it.
\<close>

subsection \<open>app.js, line 66: sliders clamped into the rail\<close>

text \<open>
  This revision of \<^verbatim>\<open>computeStage\<close> starts, with \<^verbatim>\<open>state.lockX\<close> on, from the symmetric
  pins \<open>\<plusminus> s / 2\<close>, moves every end labelled \<^verbatim>\<open>"fixed"\<close> to its rail end, and then
  clamps each pin that lies off its rail into the rail, with a warning. With
  \<^verbatim>\<open>state.lockX\<close> off it runs the same older solver as the revision of line 492.
\<close>

definition computeStage_clamp :: "app_state \<Rightarrow> real \<Rightarrow> real \<Rightarrow> real \<Rightarrow> real \<Rightarrow> string \<Rightarrow> stage" where
  "computeStage_clamp st Larm baseLen topLen aDeg p =
     (let a = rad aDeg;
          h = Larm * sin a;
          s = Larm * cos a;
          cons = constraintsFromPreset p;
          ws = stageWarnings cons;
          baseLeft = - baseLen / 2;
          baseRight = baseLen / 2;
          topLeft = - topLen / 2;
          topRight = topLen / 2;
          xPlat0 = 0
      in
        if lockX st then
          (let xA = - s / 2; xB = s / 2;
               xC = - s / 2; xD = s / 2;
               xA = (if baseL cons = Fixed then baseLeft else xA);
               xB = (if baseR cons = Fixed then baseRight else xB);
               xC = (if topL cons = Fixed then topLeft else xC);
               xD = (if topR cons = Fixed then topRight else xD);
               (xA, ws) =
                 (if xA < baseLeft \<or> xA > baseRight
                  then (clamp xA baseLeft baseRight, ws @ [BaseLeftOut]) else (xA, ws));
               (xB, ws) =
                 (if xB < baseLeft \<or> xB > baseRight
                  then (clamp xB baseLeft baseRight, ws @ [BaseRightOut]) else (xB, ws));
               (xC, ws) =
                 (if xC < topLeft \<or> xC > topRight
                  then (clamp xC topLeft topRight, ws @ [TopLeftOut]) else (xC, ws));
               (xD, ws) =
                 (if xD < topLeft \<or> xD > topRight
                  then (clamp xD topLeft topRight, ws @ [TopRightOut]) else (xD, ws))
           in
             \<lparr>stage_h = h, stage_s = s,
              pinA = \<lparr>px = xA, py = 0\<rparr>,
              pinB = \<lparr>px = xB, py = 0\<rparr>,
              pinC = \<lparr>px = xC, py = h\<rparr>,
              pinD = \<lparr>px = xD, py = h\<rparr>,
              baseSpan = baseLen,
              topSpan = topLen,
              platform =
                \<lparr>xPlat = xPlat0,
                 plat_baseLeft = \<lparr>px = baseLeft, py = 0\<rparr>,
                 plat_baseRight = \<lparr>px = baseRight, py = 0\<rparr>,
                 plat_topLeft = \<lparr>px = topLeft, py = h\<rparr>,
                 plat_topRight = \<lparr>px = topRight, py = h\<rparr>\<rparr>,
              warnings = ws\<rparr>)
        else
          (let baseLeftNom = - baseLen / 2;
               baseRightNom = baseLen / 2;
               topLeftNom = - topLen / 2;
               topRightNom = topLen / 2;
               xA = baseLeftNom; xB = baseRightNom; xC = topLeftNom; xD = topRightNom;
               xA = (if baseL cons = Fixed then baseLeftNom else xA);
               xB = (if baseR cons = Fixed then baseRightNom else xB);
               xC = (if topL cons = Fixed then topLeftNom else xC);
               xD = (if topR cons = Fixed then topRightNom else xD);
               (xA, xD) =
                 (if topR cons = Slide then (xA, xA + s)
                  else if baseL cons = Slide then (xD - s, xD)
                  else (xA, xD));
               (xB, xC) =
                 (if topL cons = Slide then (xB, xB + s)
                  else if baseR cons = Slide then (xC - s, xC)
                  else (xB, xC));
               center = (xA + xB + xC + xD) / 4;
               xA = xA - center; xB = xB - center; xC = xC - center; xD = xD - center
           in
             \<lparr>stage_h = h, stage_s = s,
              pinA = \<lparr>px = xA, py = 0\<rparr>,
              pinB = \<lparr>px = xB, py = 0\<rparr>,
              pinC = \<lparr>px = xC, py = h\<rparr>,
              pinD = \<lparr>px = xD, py = h\<rparr>,
              baseSpan = xB - xA,
              topSpan = xD - xC,
              platform =
                \<lparr>xPlat = 0,
                 plat_baseLeft = \<lparr>px = baseLeftNom, py = 0\<rparr>,
                 plat_baseRight = \<lparr>px = baseRightNom, py = 0\<rparr>,
                 plat_topLeft = \<lparr>px = topLeftNom, py = h\<rparr>,
                 plat_topRight = \<lparr>px = topRightNom, py = h\<rparr>\<rparr>,
              warnings = ws\<rparr>))"

subsection \<open>part_000, line 62: the symmetric lock-X model\<close>

text \<open>
  \<^verbatim>\<open>computeStageLockX(Larm, baseLen, topLen, alphaDeg)\<close> takes no preset and reads no state.
  Its result is \<^verbatim>\<open>{model, h, s, rails, A, B, C, D, baseSpan, topSpan, sliderGaps_mm, warnings}\<close>.
\<close>

record rail =
  rail_L :: pin
  rail_R :: pin
  rail_len :: real

record rails =
  rails_base :: rail
  rails_top :: rail

record sliderGaps =
  baseLeftGap :: real
  baseRightGap :: real
  topLeftGap :: real
  topRightGap :: real

record lockXStage =
  lx_model :: string
  lx_h :: real
  lx_s :: real
  lx_rails :: rails
  lx_A :: pin
  lx_B :: pin
  lx_C :: pin
  lx_D :: pin
  lx_baseSpan :: real
  lx_topSpan :: real
  lx_sliderGaps_mm :: sliderGaps
  lx_warnings :: "warning list"

text \<open>
  \<^verbatim>\<open>stageWarningsBasic(msgs)\<close> is \<^verbatim>\<open>msgs.filter(Boolean)\<close>; every message is a non-empty
  string, so nothing is dropped.
\<close>

definition stageWarningsBasic :: "warning list \<Rightarrow> warning list" where
  "stageWarningsBasic msgs = filter (\<lambda>m. True) msgs"

definition computeStageLockX :: "real \<Rightarrow> real \<Rightarrow> real \<Rightarrow> real \<Rightarrow> lockXStage" where
  "computeStageLockX Larm baseLen topLen aDeg =
     (let a = rad aDeg;
          h = Larm * sin a;
          s = Larm * cos a;
          baseLeft = - baseLen / 2;
          baseRight = baseLen / 2;
          topLeft = - topLen / 2;
          topRight = topLen / 2;
          warns = [];
          warns = (if s > baseLen + 1 / 10 ^ 9 then warns @ [SpanExceedsBase] else warns);
          warns = (if s > topLen + 1 / 10 ^ 9 then warns @ [SpanExceedsTop] else warns);
          xA = - s / 2;
          xB = s / 2;
          xC = - s / 2;
          xD = s / 2;
          baseLeftGap0 = xA - baseLeft;
          baseRightGap0 = baseRight - xB;
          topLeftGap0 = xC - topLeft;
          topRightGap0 = topRight - xD
      in
        \<lparr>lx_model = ''lockX'',
         lx_h = h, lx_s = s,
         lx_rails =
           \<lparr>rails_base = \<lparr>rail_L = \<lparr>px = baseLeft, py = 0\<rparr>,
                          rail_R = \<lparr>px = baseRight, py = 0\<rparr>, rail_len = baseLen\<rparr>,
            rails_top = \<lparr>rail_L = \<lparr>px = topLeft, py = h\<rparr>,
                         rail_R = \<lparr>px = topRight, py = h\<rparr>, rail_len = topLen\<rparr>\<rparr>,
         lx_A = \<lparr>px = xA, py = 0\<rparr>,
         lx_B = \<lparr>px = xB, py = 0\<rparr>,
         lx_C = \<lparr>px = xC, py = h\<rparr>,
         lx_D = \<lparr>px = xD, py = h\<rparr>,
         lx_baseSpan = baseLen,
         lx_topSpan = topLen,
         lx_sliderGaps_mm =
           \<lparr>baseLeftGap = baseLeftGap0, baseRightGap = baseRightGap0,
            topLeftGap = topLeftGap0, topRightGap = topRightGap0\<rparr>,
         lx_warnings = stageWarningsBasic warns\<rparr>)"

subsection \<open>part_001, line 75: the first solver\<close>

text \<open>
  This \<^verbatim>\<open>computeStage\<close> has no lock-X mode: it is the recentring solver, returning
  \<^verbatim>\<open>{h, s, A, B, C, D, baseSpan, topSpan, warnings}\<close> with the spans taken before the pins
  are recentred.
\<close>

record stageV1 =
  v1_h :: real
  v1_s :: real
  v1_A :: pin
  v1_B :: pin
  v1_C :: pin
  v1_D :: pin
  v1_baseSpan :: real
  v1_topSpan :: real
  v1_warnings :: "warning list"

definition computeStage_v1 :: "real \<Rightarrow> real \<Rightarrow> real \<Rightarrow> real \<Rightarrow> string \<Rightarrow> stageV1" where
  "computeStage_v1 Larm baseLen topLen aDeg p =
     (let a = rad aDeg;
          h = Larm * sin a;
          s = Larm * cos a;
          cons = constraintsFromPreset p;
          baseLeftNom = - baseLen / 2;
          baseRightNom = baseLen / 2;
          topLeftNom = - topLen / 2;
          topRightNom = topLen / 2;
          xA = baseLeftNom; xB = baseRightNom; xC = topLeftNom; xD = topRightNom;
          xA = (if baseL cons = Fixed then baseLeftNom else xA);
          xB = (if baseR cons = Fixed then baseRightNom else xB);
          xC = (if topL cons = Fixed then topLeftNom else xC);
          xD = (if topR cons = Fixed then topRightNom else xD);
          (xA, xD) =
            (if topR cons = Slide then (xA, xA + s)
             else if baseL cons = Slide then (xD - s, xD)
             else (xA, xD));
          (xB, xC) =
            (if topL cons = Slide then (xB, xB + s)
             else if baseR cons = Slide then (xC - s, xC)
             else (xB, xC));
          baseSpan0 = xB - xA;
          topSpan0 = xD - xC;
          center = (xA + xB + xC + xD) / 4;
          xA = xA - center; xB = xB - center; xC = xC - center; xD = xD - center
      in
        \<lparr>v1_h = h, v1_s = s,
         v1_A = \<lparr>px = xA, py = 0\<rparr>,
         v1_B = \<lparr>px = xB, py = 0\<rparr>,
         v1_C = \<lparr>px = xC, py = h\<rparr>,
         v1_D = \<lparr>px = xD, py = h\<rparr>,
         v1_baseSpan = baseSpan0,
         v1_topSpan = topSpan0,
         v1_warnings = stageWarnings cons\<rparr>)"

section \<open>States and measures used in the statements\<close>

text \<open>The initial value of \<^verbatim>\<open>state\<close> (app.js, line 431).\<close>

definition initial_state :: app_state where
  "initial_state =
     \<lparr>units = ''mm'', N = 1, arm_mm = 600, base_mm = 1200, top_mm = 1200,
      alphaDeg = 25, preset = ''classic'', lockX = True\<rparr>"

text \<open>
  Two handlers of \<^verbatim>\<open>bind\<close>: the lock-X checkbox stores \<^verbatim>\<open>e.target.checked\<close> in
  \<^verbatim>\<open>state.lockX\<close> (line 830), and the stage-count input stores
  \<^verbatim>\<open>Math.max(1, Math.min(6, Number(e.target.value)))\<close> in \<^verbatim>\<open>state.N\<close> (line 807).
\<close>

definition setLockX :: "bool \<Rightarrow> app_state \<Rightarrow> app_state" where
  "setLockX checked st = st\<lparr>lockX := checked\<rparr>"

definition setN :: "real \<Rightarrow> app_state \<Rightarrow> app_state" where
  "setN v st = st\<lparr>N := max 1 (min 6 v)\<rparr>"

text \<open>
  The Euclidean distance between two pins, and equality up to the relative tolerance
  \<open>10\<^sup>-\<^sup>6\<close>, in which the arm-length invariant is stated.
\<close>

definition pinDistance :: "pin \<Rightarrow> pin \<Rightarrow> real" where
  "pinDistance p q = sqrt ((px q - px p)\<^sup>2 + (py q - py p)\<^sup>2)"

definition approxRel :: "real \<Rightarrow> real \<Rightarrow> bool" where
  "approxRel d l \<longleftrightarrow> \<bar>d - l\<bar> \<le> \<bar>l\<bar> / 10 ^ 6"

section \<open>Evaluation at sample inputs\<close>

lemma rad_0: "rad 0 = 0"
  by (simp add: rad_def)

lemma lockX_initial: "lockX initial_state"
  by (simp add: initial_state_def)

lemma lockX_setLockX: "lockX (setLockX b st) = b"
  by (simp add: setLockX_def)

text \<open>Arm 600, both rails 1200, angle 0, preset classic: lock-X on, and lock-X off.\<close>

lemma locked_classic_example:
  "computeStage initial_state 600 1200 1200 0 ''classic'' =
     \<lparr>stage_h = 0, stage_s = 600,
      pinA = \<lparr>px = - 600, py = 0\<rparr>, pinB = \<lparr>px = 0, py = 0\<rparr>,
      pinC = \<lparr>px = - 600, py = 0\<rparr>, pinD = \<lparr>px = 0, py = 0\<rparr>,
      baseSpan = 1200, topSpan = 1200,
      platform = \<lparr>xPlat = 0,
         plat_baseLeft = \<lparr>px = - 600, py = 0\<rparr>, plat_baseRight = \<lparr>px = 600, py = 0\<rparr>,
         plat_topLeft = \<lparr>px = - 600, py = 0\<rparr>, plat_topRight = \<lparr>px = 600, py = 0\<rparr>\<rparr>,
      warnings = []\<rparr>"
  by (simp add: computeStage_def Let_def split_def lockX_initial rad_0 outOfRange_def
        constraintsFromPreset_def stageWarnings_def)

lemma unlocked_classic_example:
  "computeStage (setLockX False initial_state) 600 1200 1200 0 ''classic'' =
     \<lparr>stage_h = 0, stage_s = 600,
      pinA = \<lparr>px = - 1050, py = 0\<rparr>, pinB = \<lparr>px = 150, py = 0\<rparr>,
      pinC = \<lparr>px = 750, py = 0\<rparr>, pinD = \<lparr>px = 150, py = 0\<rparr>,
      baseSpan = 1200, topSpan = - 600,
      platform = \<lparr>xPlat = 0,
         plat_baseLeft = \<lparr>px = - 600, py = 0\<rparr>, plat_baseRight = \<lparr>px = 600, py = 0\<rparr>,
         plat_topLeft = \<lparr>px = - 600, py = 0\<rparr>, plat_topRight = \<lparr>px = 600, py = 0\<rparr>\<rparr>,
      warnings = []\<rparr>"
  by (simp add: computeStage_def Let_def split_def lockX_setLockX rad_0
        constraintsFromPreset_def stageWarnings_def)

lemma unlocked_bothTopFixed_example:
  "computeStage (setLockX False initial_state) 600 1200 1200 0 ''bothTopFixed'' =
     \<lparr>stage_h = 0, stage_s = 600,
      pinA = \<lparr>px = - 150, py = 0\<rparr>, pinB = \<lparr>px = - 750, py = 0\<rparr>,
      pinC = \<lparr>px = - 150, py = 0\<rparr>, pinD = \<lparr>px = 1050, py = 0\<rparr>,
      baseSpan = - 600, topSpan = 1200,
      platform = \<lparr>xPlat = 0,
         plat_baseLeft = \<lparr>px = - 600, py = 0\<rparr>, plat_baseRight = \<lparr>px = 600, py = 0\<rparr>,
         plat_topLeft = \<lparr>px = - 600, py = 0\<rparr>, plat_topRight = \<lparr>px = 600, py = 0\<rparr>\<rparr>,
      warnings = [BothTopFixed]\<rparr>"
  by (simp add: computeStage_def Let_def split_def lockX_setLockX rad_0
        constraintsFromPreset_def stageWarnings_def)

section \<open>The solver field by field\<close>

lemma computeStage_h: "stage_h (computeStage st Larm baseLen topLen aDeg p) = Larm * sin (rad aDeg)"
  by (simp add: computeStage_def Let_def split_def)

lemma computeStage_s: "stage_s (computeStage st Larm baseLen topLen aDeg p) = Larm * cos (rad aDeg)"
  by (simp add: computeStage_def Let_def split_def)

lemma locked_pinA:
  "lockX st \<Longrightarrow> pinA (computeStage st Larm baseLen topLen aDeg p) =
     \<lparr>px = (if p = ''mirrored'' then topLen / 2 - Larm * cos (rad aDeg) else - baseLen / 2),
      py = 0\<rparr>"
  by (simp add: computeStage_def Let_def split_def)

lemma locked_pinB:
  "lockX st \<Longrightarrow> pinB (computeStage st Larm baseLen topLen aDeg p) =
     \<lparr>px = (if p = ''mirrored'' then baseLen / 2 else - topLen / 2 + Larm * cos (rad aDeg)),
      py = 0\<rparr>"
  by (simp add: computeStage_def Let_def split_def)

lemma locked_pinC:
  "lockX st \<Longrightarrow> pinC (computeStage st Larm baseLen topLen aDeg p) =
     \<lparr>px = (if p = ''mirrored'' then baseLen / 2 - Larm * cos (rad aDeg) else - topLen / 2),
      py = Larm * sin (rad aDeg)\<rparr>"
  by (simp add: computeStage_def Let_def split_def)

lemma locked_pinD:
  "lockX st \<Longrightarrow> pinD (computeStage st Larm baseLen topLen aDeg p) =
     \<lparr>px = (if p = ''mirrored'' then topLen / 2 else - baseLen / 2 + Larm * cos (rad aDeg)),
      py = Larm * sin (rad aDeg)\<rparr>"
  by (simp add: computeStage_def Let_def split_def)

lemma locked_spans:
  "lockX st \<Longrightarrow> baseSpan (computeStage st Larm baseLen topLen aDeg p) = baseLen"
  "lockX st \<Longrightarrow> topSpan (computeStage st Larm baseLen topLen aDeg p) = topLen"
  by (simp_all add: computeStage_def Let_def split_def)

lemma locked_platform:
  "lockX st \<Longrightarrow> platform (computeStage st Larm baseLen topLen aDeg p) =
     \<lparr>xPlat = 0,
      plat_baseLeft = \<lparr>px = - baseLen / 2, py = 0\<rparr>,
      plat_baseRight = \<lparr>px = baseLen / 2, py = 0\<rparr>,
      plat_topLeft = \<lparr>px = - topLen / 2, py = Larm * sin (rad aDeg)\<rparr>,
      plat_topRight = \<lparr>px = topLen / 2, py = Larm * sin (rad aDeg)\<rparr>\<rparr>"
  by (simp add: computeStage_def Let_def split_def)

lemma stageWarnings_explicit:
  "stageWarnings cons =
     (if baseL cons = Fixed \<and> baseR cons = Fixed then [BothBaseFixed] else []) @
     (if topL cons = Fixed \<and> topR cons = Fixed then [BothTopFixed] else []) @
     (if baseL cons = Fixed \<and> baseR cons = Fixed \<and> topL cons = Fixed \<and> topR cons = Fixed
      then [Overconstrained] else [])"
  by (simp add: stageWarnings_def Let_def of_bool_def)

lemma stageWarnings_presets:
  "stageWarnings (constraintsFromPreset ''classic'') = []"
  "stageWarnings (constraintsFromPreset ''mirrored'') = []"
  "stageWarnings (constraintsFromPreset ''bothBaseFixed'') = [BothBaseFixed]"
  "stageWarnings (constraintsFromPreset ''bothTopFixed'') = [BothTopFixed]"
  by (simp_all add: stageWarnings_explicit constraintsFromPreset_def)

lemma locked_warnings:
  "lockX st \<Longrightarrow> warnings (computeStage st Larm baseLen topLen aDeg p) =
     stageWarnings (constraintsFromPreset p) @
     (if p = ''mirrored'' then
        (if topLen / 2 - Larm * cos (rad aDeg) < - baseLen / 2 \<or>
            topLen / 2 - Larm * cos (rad aDeg) > baseLen / 2
         then [OutOfRange ''Base-left slider (A)'' (fmt (topLen / 2 - Larm * cos (rad aDeg)))
                 (fmt (- baseLen / 2)) (fmt (baseLen / 2))] else []) @
        (if baseLen / 2 - Larm * cos (rad aDeg) < - topLen / 2 \<or>
            baseLen / 2 - Larm * cos (rad aDeg) > topLen / 2
         then [OutOfRange ''Top-left slider (C)'' (fmt (baseLen / 2 - Larm * cos (rad aDeg)))
                 (fmt (- topLen / 2)) (fmt (topLen / 2))] else [])
      else
        (if - topLen / 2 + Larm * cos (rad aDeg) < - baseLen / 2 \<or>
            - topLen / 2 + Larm * cos (rad aDeg) > baseLen / 2
         then [OutOfRange ''Base-right slider (B)'' (fmt (- topLen / 2 + Larm * cos (rad aDeg)))
                 (fmt (- baseLen / 2)) (fmt (baseLen / 2))] else []) @
        (if - baseLen / 2 + Larm * cos (rad aDeg) < - topLen / 2 \<or>
            - baseLen / 2 + Larm * cos (rad aDeg) > topLen / 2
         then [OutOfRange ''Top-right slider (D)'' (fmt (- baseLen / 2 + Larm * cos (rad aDeg)))
                 (fmt (- topLen / 2)) (fmt (topLen / 2))] else []))"
  unfolding computeStage_def Let_def split_def outOfRange_def
  by (simp del: minus_divide_left add: minus_divide_left [symmetric])

lemma unlocked_warnings:
  "\<not> lockX st \<Longrightarrow> warnings (computeStage st Larm baseLen topLen aDeg p) =
     stageWarnings (constraintsFromPreset p)"
  by (simp add: computeStage_def Let_def split_def)

text \<open>
  With lock-X on, two presets other than \<^verbatim>\<open>"mirrored"\<close> give results that differ in the
  warnings at most.
\<close>

lemma locked_stage_eqI:
  assumes "lockX st" and "p \<noteq> ''mirrored''" and "q \<noteq> ''mirrored''"
  shows "computeStage st Larm baseLen topLen aDeg p =
         (computeStage st Larm baseLen topLen aDeg q)
           \<lparr>warnings := warnings (computeStage st Larm baseLen topLen aDeg p)\<rparr>"
  using assms
  by (intro stage.equality)
     (simp_all add: locked_pinA locked_pinB locked_pinC locked_pinD locked_spans locked_platform
        computeStage_h computeStage_s)

section \<open>Arm lengths\<close>

lemma arm_vector_length: "sqrt ((Larm * cos a)\<^sup>2 + (Larm * sin a)\<^sup>2) = \<bar>Larm\<bar>"
proof -
  have "(Larm * cos a)\<^sup>2 + (Larm * sin a)\<^sup>2 = Larm\<^sup>2 * ((sin a)\<^sup>2 + (cos a)\<^sup>2)"
    by (simp only: power_mult_distrib distrib_left add.commute)
  also have "\<dots> = Larm\<^sup>2"
    by (simp only: sin_cos_squared_add mult_1_right)
  finally show ?thesis
    by (simp only: real_sqrt_abs)
qed

lemma pinDistance_level: "py p = py q \<Longrightarrow> pinDistance p q = \<bar>px q - px p\<bar>"
  by (simp add: pinDistance_def)

lemma locked_arm_AD:
  assumes "lockX st"
  shows "pinDistance (pinA (computeStage st Larm baseLen topLen aDeg p))
                     (pinD (computeStage st Larm baseLen topLen aDeg p)) = \<bar>Larm\<bar>"
proof -
  let ?r = "computeStage st Larm baseLen topLen aDeg p"
  have dx: "px (pinD ?r) - px (pinA ?r) = Larm * cos (rad aDeg)"
    using assms by (simp add: locked_pinA locked_pinD)
  have dy: "py (pinD ?r) - py (pinA ?r) = Larm * sin (rad aDeg)"
    using assms by (simp add: locked_pinA locked_pinD)
  show ?thesis
    unfolding pinDistance_def dx dy by (rule arm_vector_length)
qed

lemma locked_arm_BC:
  assumes "lockX st"
  shows "pinDistance (pinB (computeStage st Larm baseLen topLen aDeg p))
                     (pinC (computeStage st Larm baseLen topLen aDeg p)) = \<bar>Larm\<bar>"
proof -
  let ?r = "computeStage st Larm baseLen topLen aDeg p"
  have dx: "(px (pinC ?r) - px (pinB ?r))\<^sup>2 = (Larm * cos (rad aDeg))\<^sup>2"
    using assms by (simp add: locked_pinB locked_pinC power2_eq_square algebra_simps)
  have dy: "py (pinC ?r) - py (pinB ?r) = Larm * sin (rad aDeg)"
    using assms by (simp add: locked_pinB locked_pinC)
  show ?thesis
    unfolding pinDistance_def dx dy by (rule arm_vector_length)
qed

text \<open>
  Claim C1 (arm-length invariant), as amended. When \<^verbatim>\<open>state.lockX\<close> is on and the arm
  length is not negative, the pins returned by the solver satisfy: the distance from A to D
  and the distance from B to C both equal the arm length, exactly over the reals and so
  within the relative tolerance \<open>10\<^sup>-\<^sup>6\<close>, for the preset \<^verbatim>\<open>"mirrored"\<close> and for every other
  preset.
\<close>

theorem arm_length_locked:
  assumes "lockX st" and "0 \<le> Larm"
  shows "pinDistance (pinA (computeStage st Larm baseLen topLen aDeg p))
                     (pinD (computeStage st Larm baseLen topLen aDeg p)) = Larm \<and>
         pinDistance (pinB (computeStage st Larm baseLen topLen aDeg p))
                     (pinC (computeStage st Larm baseLen topLen aDeg p)) = Larm \<and>
         approxRel (pinDistance (pinA (computeStage st Larm baseLen topLen aDeg p))
                     (pinD (computeStage st Larm baseLen topLen aDeg p))) Larm \<and>
         approxRel (pinDistance (pinB (computeStage st Larm baseLen topLen aDeg p))
                     (pinC (computeStage st Larm baseLen topLen aDeg p))) Larm"
  using assms by (simp add: locked_arm_AD locked_arm_BC approxRel_def)

text \<open>The invariant at the initial state, for the mirrored and for the classic preset.\<close>

theorem arm_length_locked_witness:
  "lockX initial_state \<and> (0::real) \<le> 600 \<and>
   pinDistance (pinA (computeStage initial_state 600 1200 1200 25 ''mirrored''))
               (pinD (computeStage initial_state 600 1200 1200 25 ''mirrored'')) = 600 \<and>
   pinDistance (pinB (computeStage initial_state 600 1200 1200 25 ''classic''))
               (pinC (computeStage initial_state 600 1200 1200 25 ''classic'')) = 600"
  using arm_length_locked [of initial_state 600 1200 1200 25 "''mirrored''"]
        arm_length_locked [of initial_state 600 1200 1200 25 "''classic''"]
  by (simp add: lockX_initial)

text \<open>
  Claim C1 as stated fails once the lock-X box is unticked: for arm 600, rails 1200,
  angle 0 and preset classic the solver returns A at \<open>-1050\<close> and D at \<open>150\<close>, both at
  height 0, so the arm from A to D measures 1200.
\<close>

theorem arm_length_counterexample:
  "\<not> approxRel
       (pinDistance (pinA (computeStage (setLockX False initial_state) 600 1200 1200 0 ''classic''))
                    (pinD (computeStage (setLockX False initial_state) 600 1200 1200 0 ''classic'')))
       600"
  by (simp add: unlocked_classic_example pinDistance_level approxRel_def)

text \<open>
  With lock-X on, a negative arm length gives arms of length \<open>\<bar>Larm\<bar>\<close>, not \<open>Larm\<close>.
\<close>

lemma negative_arm_example:
  "pinDistance (pinA (computeStage initial_state (- 600) 1200 1200 0 ''classic''))
               (pinD (computeStage initial_state (- 600) 1200 1200 0 ''classic'')) = 600"
  using locked_arm_AD [of initial_state "- 600" 1200 1200 0 "''classic''"]
  by (simp add: lockX_initial)

section \<open>Sliders and warnings\<close>

text \<open>
  Claim C2 (no clamping), as amended. When \<^verbatim>\<open>state.lockX\<close> is on, the two grounded pins
  sit on their rail ends and each slider is returned at the grounded pin of its arm plus
  or minus \<open>s\<close> (for \<^verbatim>\<open>"mirrored"\<close>: \<open>A = D - s\<close> and \<open>C = B - s\<close>; otherwise \<open>D = A + s\<close> and
  \<open>B = C + s\<close>), whether or not that lies on its rail; and whenever a returned slider lies
  outside \<open>[-len/2, len/2]\<close> of its rail, the warnings contain the out-of-range message
  for that slider with its unclamped position.
\<close>

theorem slider_not_clamped:
  assumes "lockX st"
  shows "(let r = computeStage st Larm baseLen topLen aDeg p; s = Larm * cos (rad aDeg) in
     (p = ''mirrored'' \<longrightarrow>
        px (pinD r) = topLen / 2 \<and> px (pinB r) = baseLen / 2 \<and>
        px (pinA r) = px (pinD r) - s \<and> px (pinC r) = px (pinB r) - s \<and>
        (px (pinA r) < - baseLen / 2 \<or> px (pinA r) > baseLen / 2 \<longrightarrow>
           OutOfRange ''Base-left slider (A)'' (fmt (px (pinA r))) (fmt (- baseLen / 2))
             (fmt (baseLen / 2)) \<in> set (warnings r)) \<and>
        (px (pinC r) < - topLen / 2 \<or> px (pinC r) > topLen / 2 \<longrightarrow>
           OutOfRange ''Top-left slider (C)'' (fmt (px (pinC r))) (fmt (- topLen / 2))
             (fmt (topLen / 2)) \<in> set (warnings r))) \<and>
     (p \<noteq> ''mirrored'' \<longrightarrow>
        px (pinA r) = - baseLen / 2 \<and> px (pinC r) = - topLen / 2 \<and>
        px (pinD r) = px (pinA r) + s \<and> px (pinB r) = px (pinC r) + s \<and>
        (px (pinB r) < - baseLen / 2 \<or> px (pinB r) > baseLen / 2 \<longrightarrow>
           OutOfRange ''Base-right slider (B)'' (fmt (px (pinB r))) (fmt (- baseLen / 2))
             (fmt (baseLen / 2)) \<in> set (warnings r)) \<and>
        (px (pinD r) < - topLen / 2 \<or> px (pinD r) > topLen / 2 \<longrightarrow>
           OutOfRange ''Top-right slider (D)'' (fmt (px (pinD r))) (fmt (- topLen / 2))
             (fmt (topLen / 2)) \<in> set (warnings r))))"
proof (cases "p = ''mirrored''")
  case True
  with assms show ?thesis
    unfolding Let_def
    by (simp add: locked_pinA locked_pinB locked_pinC locked_pinD locked_warnings)
next
  case False
  with assms show ?thesis
    unfolding Let_def
    by (simp add: locked_pinA locked_pinB locked_pinC locked_pinD locked_warnings)
qed

text \<open>
  Arm 600 on rails of 200 at angle 0: slider B is returned at 500, off the base rail
  \<open>[-100, 100]\<close>, and reported.
\<close>

theorem slider_not_clamped_witness:
  "lockX initial_state \<and>
   px (pinB (computeStage initial_state 600 200 200 0 ''classic'')) = 500 \<and>
   OutOfRange ''Base-right slider (B)'' 500 (- 100) 100
     \<in> set (warnings (computeStage initial_state 600 200 200 0 ''classic''))"
  using slider_not_clamped [of initial_state 600 200 200 0 "''classic''"]
  by (simp add: lockX_initial Let_def rad_0 fmt_def locked_pinB)

text \<open>
  Claim C2 as stated fails with lock-X off: for arm 600, rails 1200, angle 0 and preset
  classic the solved slider C is returned at 750, beyond the right end 600 of the top
  rail, and no warning is appended.
\<close>

theorem unlocked_slider_counterexample:
  "px (pinC (computeStage (setLockX False initial_state) 600 1200 1200 0 ''classic'')) > 1200 / 2 \<and>
   warnings (computeStage (setLockX False initial_state) 600 1200 1200 0 ''classic'') = []"
  by (simp add: unlocked_classic_example)

text \<open>
  Claim C3 (order of the warnings). For every input and in either mode, the returned list
  is: the message for both base ends fixed, the message for both top ends fixed and the
  message for full over-constraint, each present exactly when its condition on the label
  table of the preset holds, in this order; followed, when lock-X is on, by the
  out-of-range message of the base-rail slider and then that of the top-rail slider of
  the branch taken (A then C for \<^verbatim>\<open>"mirrored"\<close>, B then D otherwise), each present exactly
  when the returned slider is off its rail. With lock-X off no slider is checked and the
  list ends after the symbolic messages.
\<close>

theorem warnings_order:
  "(let r = computeStage st Larm baseLen topLen aDeg p; cons = constraintsFromPreset p in
    warnings r =
     (if baseL cons = Fixed \<and> baseR cons = Fixed then [BothBaseFixed] else []) @
     (if topL cons = Fixed \<and> topR cons = Fixed then [BothTopFixed] else []) @
     (if baseL cons = Fixed \<and> baseR cons = Fixed \<and> topL cons = Fixed \<and> topR cons = Fixed
      then [Overconstrained] else []) @
     (if lockX st then
        (if p = ''mirrored'' then
           (if px (pinA r) < - baseLen / 2 \<or> px (pinA r) > baseLen / 2
            then [OutOfRange ''Base-left slider (A)'' (fmt (px (pinA r))) (fmt (- baseLen / 2))
                    (fmt (baseLen / 2))] else []) @
           (if px (pinC r) < - topLen / 2 \<or> px (pinC r) > topLen / 2
            then [OutOfRange ''Top-left slider (C)'' (fmt (px (pinC r))) (fmt (- topLen / 2))
                    (fmt (topLen / 2))] else [])
         else
           (if px (pinB r) < - baseLen / 2 \<or> px (pinB r) > baseLen / 2
            then [OutOfRange ''Base-right slider (B)'' (fmt (px (pinB r))) (fmt (- baseLen / 2))
                    (fmt (baseLen / 2))] else []) @
           (if px (pinD r) < - topLen / 2 \<or> px (pinD r) > topLen / 2
            then [OutOfRange ''Top-right slider (D)'' (fmt (px (pinD r))) (fmt (- topLen / 2))
                    (fmt (topLen / 2))] else []))
      else []))"
proof (cases "lockX st")
  case True
  then show ?thesis
    unfolding Let_def
    by (simp add: locked_pinA locked_pinB locked_pinC locked_pinD locked_warnings
          stageWarnings_explicit)
next
  case False
  then show ?thesis
    unfolding Let_def
    by (simp add: unlocked_warnings stageWarnings_explicit)
qed

text \<open>
  Preset \<^verbatim>\<open>"bothBaseFixed"\<close> with arm 600 on rails of 200 at angle 0: the symbolic message
  first, then slider B of the base rail, then slider D of the top rail.
\<close>

theorem warnings_order_witness:
  "warnings (computeStage initial_state 600 200 200 0 ''bothBaseFixed'') =
     [BothBaseFixed,
      OutOfRange ''Base-right slider (B)'' 500 (- 100) 100,
      OutOfRange ''Top-right slider (D)'' 500 (- 100) 100]"
  using warnings_order [of initial_state 600 200 200 0 "''bothBaseFixed''"]
  by (simp add: Let_def lockX_initial locked_pinB locked_pinD rad_0 fmt_def
        constraintsFromPreset_def)

section \<open>Grounded pins and presets\<close>

text \<open>
  Claim C4 (grounding invariant), as amended. When \<^verbatim>\<open>state.lockX\<close> is on: for every preset
  other than \<^verbatim>\<open>"mirrored"\<close>, recognised or not, \<open>A.x = - baseLen / 2\<close> and
  \<open>C.x = - topLen / 2\<close>; for \<^verbatim>\<open>"mirrored"\<close>, \<open>B.x = baseLen / 2\<close> and \<open>D.x = topLen / 2\<close>.
\<close>

theorem grounding_locked:
  assumes "lockX st"
  shows "(p \<noteq> ''mirrored'' \<longrightarrow>
            px (pinA (computeStage st Larm baseLen topLen aDeg p)) = - baseLen / 2 \<and>
            px (pinC (computeStage st Larm baseLen topLen aDeg p)) = - topLen / 2) \<and>
         (p = ''mirrored'' \<longrightarrow>
            px (pinB (computeStage st Larm baseLen topLen aDeg p)) = baseLen / 2 \<and>
            px (pinD (computeStage st Larm baseLen topLen aDeg p)) = topLen / 2)"
  using assms by (simp add: locked_pinA locked_pinB locked_pinC locked_pinD)

text \<open>An unrecognised preset and the mirrored one, on rails of 1200 and 1000.\<close>

theorem grounding_locked_witness:
  "lockX initial_state \<and>
   px (pinA (computeStage initial_state 600 1200 1000 25 ''unknown'')) = - 600 \<and>
   px (pinC (computeStage initial_state 600 1200 1000 25 ''unknown'')) = - 500 \<and>
   px (pinB (computeStage initial_state 600 1200 1000 25 ''mirrored'')) = 600 \<and>
   px (pinD (computeStage initial_state 600 1200 1000 25 ''mirrored'')) = 500"
  using grounding_locked [of initial_state "''unknown''" 600 1200 1000 25]
        grounding_locked [of initial_state "''mirrored''" 600 1200 1000 25]
  by (simp add: lockX_initial)

text \<open>
  Claim C4 as stated fails with lock-X off: the recentring moves A of the classic preset
  from \<open>-600\<close> to \<open>-1050\<close>.
\<close>

theorem grounding_counterexample:
  "px (pinA (computeStage (setLockX False initial_state) 600 1200 1200 0 ''classic'')) \<noteq> - 1200 / 2"
  by (simp add: unlocked_classic_example)

text \<open>
  Claim C5 (presets sharing the classic branch), as amended. When \<^verbatim>\<open>state.lockX\<close> is on,
  the presets \<^verbatim>\<open>"bothBaseFixed"\<close> and \<^verbatim>\<open>"bothTopFixed"\<close> return the result of \<^verbatim>\<open>"classic"\<close>
  (pins, \<open>h\<close>, \<open>s\<close>, spans and rail ends) with one change: their warnings are those of
  \<^verbatim>\<open>"classic"\<close> preceded by the message for both base ends fixed, respectively both top
  ends fixed, which the warnings of \<^verbatim>\<open>"classic"\<close> do not contain. More generally every
  preset \<open>q\<close> other than \<^verbatim>\<open>"mirrored"\<close> returns the result of \<^verbatim>\<open>"classic"\<close> up to the warnings.
\<close>

theorem presets_share_classic_branch:
  assumes "lockX st"
  shows "computeStage st Larm baseLen topLen aDeg ''bothBaseFixed'' =
           (computeStage st Larm baseLen topLen aDeg ''classic'')
             \<lparr>warnings := BothBaseFixed # warnings (computeStage st Larm baseLen topLen aDeg ''classic'')\<rparr> \<and>
         computeStage st Larm baseLen topLen aDeg ''bothTopFixed'' =
           (computeStage st Larm baseLen topLen aDeg ''classic'')
             \<lparr>warnings := BothTopFixed # warnings (computeStage st Larm baseLen topLen aDeg ''classic'')\<rparr> \<and>
         BothBaseFixed \<notin> set (warnings (computeStage st Larm baseLen topLen aDeg ''classic'')) \<and>
         BothTopFixed \<notin> set (warnings (computeStage st Larm baseLen topLen aDeg ''classic'')) \<and>
         (q \<noteq> ''mirrored'' \<longrightarrow>
            computeStage st Larm baseLen topLen aDeg q =
              (computeStage st Larm baseLen topLen aDeg ''classic'')
                \<lparr>warnings := warnings (computeStage st Larm baseLen topLen aDeg q)\<rparr>)"
proof -
  let ?cs = "computeStage st Larm baseLen topLen aDeg"
  have wb: "warnings (?cs ''bothBaseFixed'') = BothBaseFixed # warnings (?cs ''classic'')"
    using assms by (simp add: locked_warnings stageWarnings_presets)
  have wt: "warnings (?cs ''bothTopFixed'') = BothTopFixed # warnings (?cs ''classic'')"
    using assms by (simp add: locked_warnings stageWarnings_presets)
  have "?cs ''bothBaseFixed'' = (?cs ''classic'')\<lparr>warnings := warnings (?cs ''bothBaseFixed'')\<rparr>"
    using assms by (intro locked_stage_eqI) simp_all
  then have b: "?cs ''bothBaseFixed'' =
      (?cs ''classic'')\<lparr>warnings := BothBaseFixed # warnings (?cs ''classic'')\<rparr>"
    by (simp only: wb)
  have "?cs ''bothTopFixed'' = (?cs ''classic'')\<lparr>warnings := warnings (?cs ''bothTopFixed'')\<rparr>"
    using assms by (intro locked_stage_eqI) simp_all
  then have t: "?cs ''bothTopFixed'' =
      (?cs ''classic'')\<lparr>warnings := BothTopFixed # warnings (?cs ''classic'')\<rparr>"
    by (simp only: wt)
  have n: "BothBaseFixed \<notin> set (warnings (?cs ''classic'')) \<and>
           BothTopFixed \<notin> set (warnings (?cs ''classic''))"
    using assms by (simp add: locked_warnings stageWarnings_presets)
  have g: "q \<noteq> ''mirrored'' \<longrightarrow> ?cs q = (?cs ''classic'')\<lparr>warnings := warnings (?cs q)\<rparr>"
    using assms by (intro impI locked_stage_eqI) simp_all
  from b t n g show ?thesis
    by blast
qed

text \<open>The three presets on rails of 200, where the classic preset already warns twice.\<close>

theorem presets_share_classic_branch_witness:
  "lockX initial_state \<and>
   pinB (computeStage initial_state 600 200 200 0 ''bothBaseFixed'') =
     pinB (computeStage initial_state 600 200 200 0 ''classic'') \<and>
   warnings (computeStage initial_state 600 200 200 0 ''bothBaseFixed'') =
     BothBaseFixed # warnings (computeStage initial_state 600 200 200 0 ''classic'') \<and>
   warnings (computeStage initial_state 600 200 200 0 ''bothTopFixed'') =
     BothTopFixed # warnings (computeStage initial_state 600 200 200 0 ''classic'')"
proof -
  note t = presets_share_classic_branch
             [of initial_state 600 200 200 0 "''classic''", OF lockX_initial]
  from t have b: "computeStage initial_state 600 200 200 0 ''bothBaseFixed'' =
      (computeStage initial_state 600 200 200 0 ''classic'')
        \<lparr>warnings := BothBaseFixed # warnings (computeStage initial_state 600 200 200 0 ''classic'')\<rparr>"
    by (rule conjunct1)
  from t have c: "computeStage initial_state 600 200 200 0 ''bothTopFixed'' =
      (computeStage initial_state 600 200 200 0 ''classic'')
        \<lparr>warnings := BothTopFixed # warnings (computeStage initial_state 600 200 200 0 ''classic'')\<rparr>"
    by blast
  have "pinB (computeStage initial_state 600 200 200 0 ''bothBaseFixed'') =
     pinB (computeStage initial_state 600 200 200 0 ''classic'')"
    by (subst b) simp
  moreover have "warnings (computeStage initial_state 600 200 200 0 ''bothBaseFixed'') =
     BothBaseFixed # warnings (computeStage initial_state 600 200 200 0 ''classic'')"
    by (subst b) simp
  moreover have "warnings (computeStage initial_state 600 200 200 0 ''bothTopFixed'') =
     BothTopFixed # warnings (computeStage initial_state 600 200 200 0 ''classic'')"
    by (subst c) simp
  ultimately show ?thesis
    by (simp add: lockX_initial)
qed

text \<open>
  Claim C5 as stated fails with lock-X off: the older solver reads the label table, and
  for \<^verbatim>\<open>"bothTopFixed"\<close> it solves B from C, returning B at \<open>-750\<close> where \<^verbatim>\<open>"classic"\<close>
  returns it at 150.
\<close>

theorem presets_counterexample:
  "pinB (computeStage (setLockX False initial_state) 600 1200 1200 0 ''bothTopFixed'') \<noteq>
   pinB (computeStage (setLockX False initial_state) 600 1200 1200 0 ''classic'')"
  by (simp add: unlocked_bothTopFixed_example unlocked_classic_example)

section \<open>Stacking\<close>

lemma stackLoop_unfold:
  "stackLoop n stg i acc = acc @ map (stageCopyAt stg) [i..<nat \<lceil>n\<rceil>]"
proof (induction n stg i acc rule: stackLoop.induct)
  case (1 n stg i acc)
  show ?case
  proof (cases "real i < n")
    case True
    then have "i < nat \<lceil>n\<rceil>"
      by linarith
    then have "[i..<nat \<lceil>n\<rceil>] = i # [Suc i..<nat \<lceil>n\<rceil>]"
      by (rule upt_conv_Cons)
    with True "1.IH" show ?thesis
      by (simp add: stackLoop.simps [of n stg i acc])
  next
    case False
    then have "nat \<lceil>n\<rceil> \<le> i"
      by linarith
    with False show ?thesis
      by (simp add: stackLoop.simps [of n stg i acc])
  qed
qed

lemma stageCopyAt_fields:
  "copyA (stageCopyAt g i) = \<lparr>px = px (pinA g), py = py (pinA g) + real i * stage_h g\<rparr>"
  "copyB (stageCopyAt g i) = \<lparr>px = px (pinB g), py = py (pinB g) + real i * stage_h g\<rparr>"
  "copyC (stageCopyAt g i) = \<lparr>px = px (pinC g), py = py (pinC g) + real i * stage_h g\<rparr>"
  "copyD (stageCopyAt g i) = \<lparr>px = px (pinD g), py = py (pinD g) + real i * stage_h g\<rparr>"
  by (simp_all add: stageCopyAt_def Let_def)

lemma stages_computeAll:
  "N st = real n \<Longrightarrow> stages (computeAll st) = map (stageCopyAt (stage0 (computeAll st))) [0..<n]"
  by (simp add: computeAll_def Let_def stackLoop_unfold)

text \<open>
  Claim C6 (stack building). For every state whose stage count \<^verbatim>\<open>state.N\<close> is a whole number
  \<open>n \<ge> 1\<close>: \<^verbatim>\<open>computeAll\<close> solves one stage from the state, returns exactly \<open>n\<close> copies of it,
  the \<open>i\<close>-th copy (from 0) having every pin's \<open>x\<close> unchanged and every pin's \<open>y\<close> raised by
  \<open>i * h\<close>, the copy of index 0 having the pins of the solved stage themselves, and the
  total height is \<open>n * h\<close>.
\<close>

theorem stack_building:
  assumes "1 \<le> n" and "N st = real n"
  shows "stage0 (computeAll st) =
           computeStage st (arm_mm st) (base_mm st) (top_mm st) (alphaDeg st) (preset st) \<and>
         length (stages (computeAll st)) = n \<and>
         (\<forall>i<n.
            px (copyA (stages (computeAll st) ! i)) = px (pinA (stage0 (computeAll st))) \<and>
            px (copyB (stages (computeAll st) ! i)) = px (pinB (stage0 (computeAll st))) \<and>
            px (copyC (stages (computeAll st) ! i)) = px (pinC (stage0 (computeAll st))) \<and>
            px (copyD (stages (computeAll st) ! i)) = px (pinD (stage0 (computeAll st))) \<and>
            py (copyA (stages (computeAll st) ! i)) =
              py (pinA (stage0 (computeAll st))) + real i * stage_h (stage0 (computeAll st)) \<and>
            py (copyB (stages (computeAll st) ! i)) =
              py (pinB (stage0 (computeAll st))) + real i * stage_h (stage0 (computeAll st)) \<and>
            py (copyC (stages (computeAll st) ! i)) =
              py (pinC (stage0 (computeAll st))) + real i * stage_h (stage0 (computeAll st)) \<and>
            py (copyD (stages (computeAll st) ! i)) =
              py (pinD (stage0 (computeAll st))) + real i * stage_h (stage0 (computeAll st))) \<and>
         copyA (stages (computeAll st) ! 0) = pinA (stage0 (computeAll st)) \<and>
         copyB (stages (computeAll st) ! 0) = pinB (stage0 (computeAll st)) \<and>
         copyC (stages (computeAll st) ! 0) = pinC (stage0 (computeAll st)) \<and>
         copyD (stages (computeAll st) ! 0) = pinD (stage0 (computeAll st)) \<and>
         totalH (computeAll st) = real n * stage_h (stage0 (computeAll st))"
proof -
  let ?g = "stage0 (computeAll st)"
  have stg: "stages (computeAll st) = map (stageCopyAt ?g) [0..<n]"
    using assms(2) by (rule stages_computeAll)
  have nth: "stages (computeAll st) ! i = stageCopyAt ?g i" if "i < n" for i
    using that by (simp add: stg)
  have first: "stages (computeAll st) ! 0 = stageCopyAt ?g 0"
    using assms(1) by (simp add: nth)
  have "stage0 (computeAll st) =
          computeStage st (arm_mm st) (base_mm st) (top_mm st) (alphaDeg st) (preset st)"
    by (simp add: computeAll_def Let_def)
  moreover have "length (stages (computeAll st)) = n"
    by (simp add: stg)
  moreover have "totalH (computeAll st) = real n * stage_h ?g"
    using assms(2) by (simp add: computeAll_def Let_def)
  ultimately show ?thesis
    by (simp add: nth first stageCopyAt_fields)
qed

text \<open>Three stages entered in the stage-count box of the initial state.\<close>

theorem stack_building_witness:
  "(1::nat) \<le> 3 \<and> N (setN 3 initial_state) = real 3 \<and>
   length (stages (computeAll (setN 3 initial_state))) = 3 \<and>
   py (copyA (stages (computeAll (setN 3 initial_state)) ! 2)) =
     py (pinA (stage0 (computeAll (setN 3 initial_state)))) +
     2 * stage_h (stage0 (computeAll (setN 3 initial_state))) \<and>
   totalH (computeAll (setN 3 initial_state)) =
     3 * stage_h (stage0 (computeAll (setN 3 initial_state)))"
  using stack_building [of 3 "setN 3 initial_state"]
  by (simp add: setN_def initial_state_def)

section \<open>Rise, projection and spans\<close>

text \<open>
  The rise and the projection as real numbers: \<open>h = Larm * sin (rad aDeg)\<close> and
  \<open>s = Larm * cos (rad aDeg)\<close> in either mode and for every preset, and the squares of
  these two reals add up to \<open>Larm\<^sup>2\<close>. This is a fact about the real numbers the solver's
  formulas denote. The doubles the program computes are rounded at every operation, and
  what their squares add up to is not expressed in this embedding.
\<close>

lemma rise_projection_real_identity:
  "stage_h (computeStage st Larm baseLen topLen aDeg p) = Larm * sin (rad aDeg) \<and>
   stage_s (computeStage st Larm baseLen topLen aDeg p) = Larm * cos (rad aDeg) \<and>
   (stage_h (computeStage st Larm baseLen topLen aDeg p))\<^sup>2 +
   (stage_s (computeStage st Larm baseLen topLen aDeg p))\<^sup>2 = Larm\<^sup>2"
proof -
  have "(Larm * sin (rad aDeg))\<^sup>2 + (Larm * cos (rad aDeg))\<^sup>2 =
        Larm\<^sup>2 * ((sin (rad aDeg))\<^sup>2 + (cos (rad aDeg))\<^sup>2)"
    by (simp only: power_mult_distrib distrib_left)
  also have "\<dots> = Larm\<^sup>2"
    by (simp only: sin_cos_squared_add mult_1_right)
  finally show ?thesis
    by (simp add: computeStage_h computeStage_s)
qed

text \<open>
  Claim C8 (rail lengths passed through), as amended. When \<^verbatim>\<open>state.lockX\<close> is on, the
  returned \<^verbatim>\<open>baseSpan\<close> is the base rail length given and the returned \<^verbatim>\<open>topSpan\<close> is the
  top rail length given, for every preset, angle and arm length, whatever warnings are
  raised.
\<close>

theorem spans_locked:
  assumes "lockX st"
  shows "baseSpan (computeStage st Larm baseLen topLen aDeg p) = baseLen \<and>
         topSpan (computeStage st Larm baseLen topLen aDeg p) = topLen"
  using assms by (simp add: locked_spans)

text \<open>Rails of 200 and 300 under an arm of 600: both sliders are off their rails.\<close>

theorem spans_locked_witness:
  "lockX initial_state \<and>
   baseSpan (computeStage initial_state 600 200 300 0 ''bothTopFixed'') = 200 \<and>
   topSpan (computeStage initial_state 600 200 300 0 ''bothTopFixed'') = 300"
  using spans_locked [of initial_state 600 200 300 0 "''bothTopFixed''"]
  by (simp add: lockX_initial)

text \<open>
  Claim C8 as stated fails with lock-X off, where the spans are differences of solved
  pins: for arm 600, rails 1200, angle 0 and preset classic, \<^verbatim>\<open>topSpan\<close> is \<open>-600\<close>.
\<close>

theorem spans_counterexample:
  "topSpan (computeStage (setLockX False initial_state) 600 1200 1200 0 ''classic'') \<noteq> 1200"
  by (simp add: unlocked_classic_example)

section \<open>Dependence on the shared state\<close>

text \<open>
  Claim C9 (determinism), as amended. The result of the solver (pins, \<open>h\<close>, \<open>s\<close>, spans,
  rail ends and the warnings with their order) is a function of its five arguments and of
  the flag \<^verbatim>\<open>state.lockX\<close>: two calls with the same arguments in states that agree on
  \<^verbatim>\<open>lockX\<close> return the same result, whatever the other fields of the state hold.
\<close>

theorem lockX_only_state:
  assumes "lockX st = lockX st'"
  shows "computeStage st Larm baseLen topLen aDeg p = computeStage st' Larm baseLen topLen aDeg p"
  using assms unfolding computeStage_def by simp

text \<open>The initial state, and the same with three stages shown in inches.\<close>

theorem lockX_only_state_witness:
  "lockX initial_state = lockX (initial_state\<lparr>N := 3, units := ''in''\<rparr>) \<and>
   computeStage initial_state 600 1200 1200 25 ''classic'' =
   computeStage (initial_state\<lparr>N := 3, units := ''in''\<rparr>) 600 1200 1200 25 ''classic''"
  using lockX_only_state
          [of initial_state "initial_state\<lparr>N := 3, units := ''in''\<rparr>" 600 1200 1200 25 "''classic''"]
  by simp

text \<open>
  Claim C9 as stated fails: the same five arguments give different results before and
  after the lock-X box is unticked.
\<close>

theorem hidden_state_counterexample:
  "computeStage initial_state 600 1200 1200 0 ''classic'' \<noteq>
   computeStage (setLockX False initial_state) 600 1200 1200 0 ''classic''"
  by (simp add: locked_classic_example unlocked_classic_example)

section \<open>Pin elevation\<close>

text \<open>
  Claim C10 (pin elevation). For every input, in either mode and for every preset, the
  base pins A and B are returned at \<open>y = 0\<close> and the top pins C and D at
  \<open>y = h = Larm * sin (rad aDeg)\<close>, wherever their \<open>x\<close> lies and whatever the sign of \<open>h\<close>.
\<close>

theorem pin_elevation:
  "py (pinA (computeStage st Larm baseLen topLen aDeg p)) = 0 \<and>
   py (pinB (computeStage st Larm baseLen topLen aDeg p)) = 0 \<and>
   py (pinC (computeStage st Larm baseLen topLen aDeg p)) = Larm * sin (rad aDeg) \<and>
   py (pinD (computeStage st Larm baseLen topLen aDeg p)) = Larm * sin (rad aDeg) \<and>
   stage_h (computeStage st Larm baseLen topLen aDeg p) = Larm * sin (rad aDeg)"
proof (cases "lockX st")
  case True
  then show ?thesis
    by (simp add: locked_pinA locked_pinB locked_pinC locked_pinD computeStage_h)
next
  case False
  then have "py (pinA (computeStage st Larm baseLen topLen aDeg p)) = 0"
    and "py (pinB (computeStage st Larm baseLen topLen aDeg p)) = 0"
    and "py (pinC (computeStage st Larm baseLen topLen aDeg p)) = Larm * sin (rad aDeg)"
    and "py (pinD (computeStage st Larm baseLen topLen aDeg p)) = Larm * sin (rad aDeg)"
    by (simp_all add: computeStage_def Let_def split_def)
  then show ?thesis
    by (simp add: computeStage_h)
qed

section \<open>The other revisions\<close>

text \<open>
  The revision of app.js line 66 does clamp: with arm 600 on rails of 200 at angle 0 the
  slider B starts at \<open>s / 2 = 300\<close> and is returned at the rail end 100, and the arm from
  A to D measures 200.
\<close>

lemma clamp_revision_example:
  "computeStage_clamp initial_state 600 200 200 0 ''classic'' =
     \<lparr>stage_h = 0, stage_s = 600,
      pinA = \<lparr>px = - 100, py = 0\<rparr>, pinB = \<lparr>px = 100, py = 0\<rparr>,
      pinC = \<lparr>px = - 100, py = 0\<rparr>, pinD = \<lparr>px = 100, py = 0\<rparr>,
      baseSpan = 200, topSpan = 200,
      platform = \<lparr>xPlat = 0,
         plat_baseLeft = \<lparr>px = - 100, py = 0\<rparr>, plat_baseRight = \<lparr>px = 100, py = 0\<rparr>,
         plat_topLeft = \<lparr>px = - 100, py = 0\<rparr>, plat_topRight = \<lparr>px = 100, py = 0\<rparr>\<rparr>,
      warnings = [BaseRightOut, TopLeftOut]\<rparr>"
  by (simp add: computeStage_clamp_def Let_def split_def lockX_initial rad_0 clamp_def
        constraintsFromPreset_def stageWarnings_def)

lemma clamp_revision_elevation:
  "py (pinA (computeStage_clamp st Larm baseLen topLen aDeg p)) = 0 \<and>
   py (pinB (computeStage_clamp st Larm baseLen topLen aDeg p)) = 0 \<and>
   py (pinC (computeStage_clamp st Larm baseLen topLen aDeg p)) = Larm * sin (rad aDeg) \<and>
   py (pinD (computeStage_clamp st Larm baseLen topLen aDeg p)) = Larm * sin (rad aDeg)"
  by (simp add: computeStage_clamp_def Let_def split_def)

text \<open>
  \<^verbatim>\<open>computeStageLockX\<close> of part_000 grounds no pin: all four sit at \<open>\<plusminus> s / 2\<close>, so on rails
  of 1200 the pin A is at \<open>-300\<close>, not at the rail end \<open>-600\<close>. Its pins are at the
  heights 0 and \<open>h\<close> all the same.
\<close>

lemma lockX_model_pins:
  "px (lx_A (computeStageLockX Larm baseLen topLen aDeg)) = - (Larm * cos (rad aDeg)) / 2 \<and>
   px (lx_B (computeStageLockX Larm baseLen topLen aDeg)) = Larm * cos (rad aDeg) / 2 \<and>
   px (lx_C (computeStageLockX Larm baseLen topLen aDeg)) = - (Larm * cos (rad aDeg)) / 2 \<and>
   px (lx_D (computeStageLockX Larm baseLen topLen aDeg)) = Larm * cos (rad aDeg) / 2"
  by (simp add: computeStageLockX_def Let_def)

lemma lockX_model_example:
  "px (lx_A (computeStageLockX 600 1200 1200 0)) = - 300"
  by (simp add: lockX_model_pins rad_0)

lemma lockX_model_elevation:
  "py (lx_A (computeStageLockX Larm baseLen topLen aDeg)) = 0 \<and>
   py (lx_B (computeStageLockX Larm baseLen topLen aDeg)) = 0 \<and>
   py (lx_C (computeStageLockX Larm baseLen topLen aDeg)) = Larm * sin (rad aDeg) \<and>
   py (lx_D (computeStageLockX Larm baseLen topLen aDeg)) = Larm * sin (rad aDeg)"
  by (simp add: computeStageLockX_def Let_def)

text \<open>
  The first solver of part_001 returns, for arm 600, rails 1200, angle 0 and preset
  classic, the pins of the lock-X-off branch above: A at \<open>-1050\<close> and D at 150.
\<close>

lemma first_solver_example:
  "computeStage_v1 600 1200 1200 0 ''classic'' =
     \<lparr>v1_h = 0, v1_s = 600,
      v1_A = \<lparr>px = - 1050, py = 0\<rparr>, v1_B = \<lparr>px = 150, py = 0\<rparr>,
      v1_C = \<lparr>px = 750, py = 0\<rparr>, v1_D = \<lparr>px = 150, py = 0\<rparr>,
      v1_baseSpan = 1200, v1_topSpan = - 600,
      v1_warnings = []\<rparr>"
  by (simp add: computeStage_v1_def Let_def split_def rad_0
        constraintsFromPreset_def stageWarnings_def)

lemma first_solver_elevation:
  "py (v1_A (computeStage_v1 Larm baseLen topLen aDeg p)) = 0 \<and>
   py (v1_B (computeStage_v1 Larm baseLen topLen aDeg p)) = 0 \<and>
   py (v1_C (computeStage_v1 Larm baseLen topLen aDeg p)) = Larm * sin (rad aDeg) \<and>
   py (v1_D (computeStage_v1 Larm baseLen topLen aDeg p)) = Larm * sin (rad aDeg)"
  by (simp add: computeStage_v1_def Let_def split_def)

end
